theory Spec2Isabelle
  imports Complex_Main "HOL-Library.Word"
begin

section \<open>JavaScript strings\<close>

text \<open>
  A JavaScript string is a sequence of UTF-16 code units. The regular expressions of the
  backend carry no \<open>u\<close> flag, so they see one code unit at a time.
  \<open>js_of\<close> writes an ASCII literal of the source as such a sequence.
\<close>

type_synonym code_unit = "16 word"
type_synonym js_string = "code_unit list"

definition js_of :: "string \<Rightarrow> js_string" where
  "js_of s = map (\<lambda>c. of_nat (of_char c)) s"

definition underscore :: code_unit where "underscore = 0x5F"
definition slash :: code_unit where "slash = 0x2F"
definition dot :: code_unit where "dot = 0x2E"
definition hyphen :: code_unit where "hyphen = 0x2D"

definition is_lower :: "code_unit \<Rightarrow> bool" where
  "is_lower c \<longleftrightarrow> 0x61 \<le> c \<and> c \<le> 0x7A"

definition is_upper :: "code_unit \<Rightarrow> bool" where
  "is_upper c \<longleftrightarrow> 0x41 \<le> c \<and> c \<le> 0x5A"

definition is_digit :: "code_unit \<Rightarrow> bool" where
  "is_digit c \<longleftrightarrow> 0x30 \<le> c \<and> c \<le> 0x39"

definition is_ascii :: "js_string \<Rightarrow> bool" where
  "is_ascii s = list_all (\<lambda>c. c < 0x80) s"

text \<open>
  \<open>String.prototype.toLowerCase\<close> and \<open>toUpperCase\<close> follow the Unicode case mappings.
  On a string of ASCII units they change the letters A-Z (a-z) and nothing else; what they
  do to a string with other units is left to the parameter \<open>U\<close>, about which nothing is
  assumed.
\<close>

definition lower_unit :: "code_unit \<Rightarrow> code_unit" where
  "lower_unit c = (if is_upper c then c + 0x20 else c)"

definition upper_unit :: "code_unit \<Rightarrow> code_unit" where
  "upper_unit c = (if is_lower c then c - 0x20 else c)"

definition toLowerCase :: "(js_string \<Rightarrow> js_string) \<Rightarrow> js_string \<Rightarrow> js_string" where
  "toLowerCase U s = (if is_ascii s then map lower_unit s else U s)"

definition toUpperCase :: "(js_string \<Rightarrow> js_string) \<Rightarrow> js_string \<Rightarrow> js_string" where
  "toUpperCase U s = (if is_ascii s then map upper_unit s else U s)"

text \<open>JavaScript truthiness of a string that may be \<open>undefined\<close>: only a non-empty string is truthy.\<close>

definition truthy :: "js_string option \<Rightarrow> bool" where
  "truthy v = (case v of None \<Rightarrow> False | Some s \<Rightarrow> s \<noteq> [])"


section \<open>utils/fileValidation.js\<close>

text \<open>
  \<^verbatim>\<open>
  export const sanitizeFilename = (filename) => {
    return filename
      .replace(/[^a-zA-Z0-9.-]/g, '_')
      .replace(/_{2,}/g, '_')
      .toLowerCase();
  };
  \<close>
\<close>

definition name_class :: "code_unit \<Rightarrow> bool" where
  \<comment> \<open>the character class \<open>[a-zA-Z0-9.-]\<close>\<close>
  "name_class c \<longleftrightarrow> is_lower c \<or> is_upper c \<or> is_digit c \<or> c = dot \<or> c = hyphen"

definition replace_outside_class :: "js_string \<Rightarrow> js_string" where
  \<comment> \<open>\<open>.replace(/[^a-zA-Z0-9.-]/g, '_')\<close>\<close>
  "replace_outside_class s = map (\<lambda>c. if name_class c then c else underscore) s"

text \<open>
  \<open>.replace(/_{2,}/g, '_')\<close>: scanning from the left, a position where two underscores
  begin starts a match, the greedy quantifier takes the whole run, and the run is replaced
  by one underscore; any other unit is copied.
\<close>

function replace_underscore_runs :: "js_string \<Rightarrow> js_string" where
  "replace_underscore_runs [] = []"
| "replace_underscore_runs (c # cs) =
     (if c = underscore \<and> cs \<noteq> [] \<and> hd cs = underscore
      then underscore # replace_underscore_runs (dropWhile (\<lambda>d. d = underscore) cs)
      else c # replace_underscore_runs cs)"
  by pat_completeness auto
termination
  by (relation "measure length") (auto simp: less_Suc_eq_le length_dropWhile_le)

definition sanitizeFilename :: "(js_string \<Rightarrow> js_string) \<Rightarrow> js_string \<Rightarrow> js_string" where
  "sanitizeFilename U filename =
     toLowerCase U (replace_underscore_runs (replace_outside_class filename))"

text \<open>The units a sanitized name is made of, and the absence of a doubled underscore.\<close>

definition clean_unit :: "code_unit \<Rightarrow> bool" where
  "clean_unit c \<longleftrightarrow> is_lower c \<or> is_digit c \<or> c = dot \<or> c = hyphen \<or> c = underscore"

fun single_underscores :: "js_string \<Rightarrow> bool" where
  "single_underscores (a # b # cs) = ((a \<noteq> underscore \<or> b \<noteq> underscore) \<and> single_underscores (b # cs))"
| "single_underscores cs = True"


text \<open>
  \<^verbatim>\<open>
  export const generateUniqueFilename = (originalName) => {
    const timestamp = Date.now();
    const randomString = Math.random().toString(36).substring(2, 15);
    const extension = originalName.split('.').pop();
    const baseName = originalName.split('.').slice(0, -1).join('.');
    return `${timestamp}-${randomString}-${baseName}.${extension}`;
  };
  \<close>
  \<open>split_on\<close> is \<open>String.prototype.split\<close> with a one-unit separator: it always returns
  at least one segment. The clock and the random source are inputs: \<open>timestamp\<close> and
  \<open>randomString\<close> are the two values as the template literal prints them.
\<close>

fun split_on :: "code_unit \<Rightarrow> js_string \<Rightarrow> js_string list" where
  "split_on sep [] = [[]]"
| "split_on sep (c # cs) =
     (if c = sep then [] # split_on sep cs
      else (case split_on sep cs of
              p # ps \<Rightarrow> (c # p) # ps
            | [] \<Rightarrow> [[c]]))"

fun join_with :: "code_unit \<Rightarrow> js_string list \<Rightarrow> js_string" where
  "join_with sep [] = []"
| "join_with sep [p] = p"
| "join_with sep (p # q # ps) = p @ sep # join_with sep (q # ps)"

definition generateUniqueFilename :: "js_string \<Rightarrow> js_string \<Rightarrow> js_string \<Rightarrow> js_string" where
  "generateUniqueFilename timestamp randomString originalName =
     (let extension = last (split_on dot originalName);
          baseName = join_with dot (butlast (split_on dot originalName))
      in timestamp @ [hyphen] @ randomString @ [hyphen] @ baseName @ [dot] @ extension)"


section \<open>config/aws.js and routes/upload.js\<close>

definition uploadPath :: js_string where
  "uploadPath = js_of ''uploads/''"

text \<open>
  The bucket is a map from object keys to objects. What the handlers take from their
  surroundings is an input: the identifier \<open>uuidv4()\<close> returns, the clock, the random
  source, and the name of the error \<open>s3Client.send\<close> throws, if it throws.
\<close>

record uploaded_file =
  originalname :: js_string
  buffer :: "8 word list"
  mimetype :: js_string
  file_size :: nat

record s3_object =
  Body :: "8 word list"
  ContentType :: js_string
  Metadata_originalName :: js_string
  Metadata_jobId :: js_string

type_synonym s3_bucket = "js_string \<rightharpoonup> s3_object"

record upload_env =
  uuid :: js_string
  now :: js_string
  random :: js_string
  send_error :: "js_string option"

record upload_data =
  data_jobId :: js_string
  data_filename :: js_string
  data_originalName :: js_string
  data_size :: nat
  data_mimeType :: js_string
  data_s3Key :: js_string

datatype upload_response =
    Status_400 js_string
  | Status_200 upload_data
  | Status_500 js_string

text \<open>
  \<open>POST /file\<close>. The source:
  \<^verbatim>\<open>
    if (!req.file) { return res.status(400).json({ ..., error: 'No file provided', ... }); }
    const file = req.file;
    const jobId = uuidv4();
    const sanitizedName = sanitizeFilename(file.originalname);
    const uniqueFilename = generateUniqueFilename(sanitizedName);
    const s3Key = `${S3_CONFIG.uploadPath}${jobId}/${uniqueFilename}`;
    ... await s3Client.send(new PutObjectCommand(uploadParams));
    res.status(200).json({ success: true, ..., data: { jobId, filename: uniqueFilename, ..., s3Key, ... } });
  } catch (error) {
    if (error.name === 'CredentialsError') ... 'AWS credentials error'
    if (error.name === 'NetworkingError') ... 'Network error'
    ... 'Upload failed'
  \<close>
\<close>

definition post_file ::
  "(js_string \<Rightarrow> js_string) \<Rightarrow> upload_env \<Rightarrow> s3_bucket \<Rightarrow> uploaded_file option
     \<Rightarrow> upload_response \<times> s3_bucket" where
  "post_file U env bucket req_file =
     (case req_file of
        None \<Rightarrow> (Status_400 (js_of ''No file provided''), bucket)
      | Some file \<Rightarrow>
          (let jobId = uuid env;
               sanitizedName = sanitizeFilename U (originalname file);
               uniqueFilename = generateUniqueFilename (now env) (random env) sanitizedName;
               s3Key = uploadPath @ jobId @ [slash] @ uniqueFilename
           in case send_error env of
                Some name \<Rightarrow>
                  (Status_500
                     (if name = js_of ''CredentialsError'' then js_of ''AWS credentials error''
                      else if name = js_of ''NetworkingError'' then js_of ''Network error''
                      else js_of ''Upload failed''),
                   bucket)
              | None \<Rightarrow>
                  (Status_200
                     \<lparr>data_jobId = jobId, data_filename = uniqueFilename,
                      data_originalName = originalname file, data_size = file_size file,
                      data_mimeType = mimetype file, data_s3Key = s3Key\<rparr>,
                   bucket(s3Key \<mapsto>
                     \<lparr>Body = buffer file, ContentType = mimetype file,
                      Metadata_originalName = originalname file,
                      Metadata_jobId = jobId\<rparr>))))"

text \<open>
  \<open>GET /status/:jobId\<close>. The source:
  \<^verbatim>\<open>
    const { jobId } = req.params;
    // Here you would typically check the job status from a database
    // For now, we'll return a simple response
    res.status(200).json({
      success: true,
      data: { jobId: jobId, status: 'uploaded', message: 'File upload completed successfully' }
    });
  \<close>
  The handler is given the bucket like every other handler, and does not read it.
\<close>

record status_data =
  status_jobId :: js_string
  job_status :: js_string
  job_message :: js_string

record status_response =
  http_status :: nat
  res_success :: bool
  res_data :: status_data

definition get_status :: "s3_bucket \<Rightarrow> js_string \<Rightarrow> status_response" where
  "get_status bucket jobId =
     \<lparr>http_status = 200, res_success = True,
      res_data = \<lparr>status_jobId = jobId, job_status = js_of ''uploaded'',
                  job_message = js_of ''File upload completed successfully''\<rparr>\<rparr>"

text \<open>
  \<open>GET /files\<close>, the entry computed for one listed object. Both the \<open>try\<close> branch and
  the \<open>catch\<close> branch of the source compute these fields the same way:
  \<^verbatim>\<open>
    const pathParts = obj.Key.split('/');
    const jobId = pathParts[1];
    const filename = pathParts[2] || obj.Key.split('/').pop();
    return { id: jobId || obj.Key.replace(/[^a-zA-Z0-9]/g, ''), filename: filename, ...,
             jobId: jobId, ..., s3Key: obj.Key, ... };
  \<close>
  An index past the end of \<open>pathParts\<close> reads \<open>undefined\<close>.
\<close>

definition nth_opt :: "'a list \<Rightarrow> nat \<Rightarrow> 'a option" where
  "nth_opt xs i = (if i < length xs then Some (xs ! i) else None)"

definition strip_non_alnum :: "js_string \<Rightarrow> js_string" where
  \<comment> \<open>\<open>.replace(/[^a-zA-Z0-9]/g, '')\<close>\<close>
  "strip_non_alnum s = filter (\<lambda>c. is_lower c \<or> is_upper c \<or> is_digit c) s"

record file_entry =
  entry_id :: js_string
  entry_filename :: js_string
  entry_jobId :: "js_string option"
  entry_s3Key :: js_string

definition list_entry :: "js_string \<Rightarrow> file_entry" where
  "list_entry Key =
     (let pathParts = split_on slash Key;
          jobId = nth_opt pathParts 1;
          filename = (case nth_opt pathParts 2 of
                        Some f \<Rightarrow> if f \<noteq> [] then f else last (split_on slash Key)
                      | None \<Rightarrow> last (split_on slash Key))
      in \<lparr>entry_id = (case jobId of
                        Some j \<Rightarrow> if j \<noteq> [] then j else strip_non_alnum Key
                      | None \<Rightarrow> strip_non_alnum Key),
          entry_filename = filename,
          entry_jobId = jobId,
          entry_s3Key = Key\<rparr>)"

definition get_files :: "js_string list \<Rightarrow> file_entry list" where
  \<comment> \<open>the entries for the keys \<open>response.Contents\<close> holds, before they are sorted by date\<close>
  "get_files Contents = map list_entry Contents"

text \<open>
  The identifiers of the \<open>uuid\<close> package are 36 units long and made of hexadecimal
  digits and hyphens; nothing more about them is used.
\<close>

definition uuid_unit :: "code_unit \<Rightarrow> bool" where
  "uuid_unit c \<longleftrightarrow> is_digit c \<or> (0x61 \<le> c \<and> c \<le> 0x66) \<or> c = hyphen"

definition uuid_shaped :: "js_string \<Rightarrow> bool" where
  "uuid_shaped j \<longleftrightarrow> length j = 36 \<and> list_all uuid_unit j"


section \<open>routes/analysis.js: triggering the static analysis\<close>

text \<open>
  \<open>POST /trigger/:fileId\<close>. The Lambda function is invoked with
  \<open>InvocationType: 'Event'\<close>; the state of the model is the list of invocations Lambda
  has accepted so far. \<open>send\<close> is what \<open>lambdaClient.send\<close> does this time: it returns a
  status code (\<open>Inr\<close>) or throws an error of some name (\<open>Inl\<close>).
  \<^verbatim>\<open>
    const { fileId } = req.params;
    const { s3Key, s3Bucket, fileName } = req.body;
    if (!fileId || !s3Key || !s3Bucket) { return res.status(400).json({ ... }); }
    const payload = { fileId, s3Bucket, s3Key, fileName: fileName || s3Key,
                      analysisType: 'static', ... };
    const lambdaResponse = await lambdaClient.send(new InvokeCommand({ ... }));
    res.status(202).json({ success: true, ...,
      data: { fileId, status: 'processing', lambdaStatus: lambdaResponse.StatusCode, ... } });
  } catch (error) {
    if (error.name === 'ResourceNotFoundException') ... status(500) 'Lambda function not found'
    if (error.name === 'InvalidRequestContentException') ... status(400) 'Invalid request'
    ... status(500) 'Failed to trigger analysis'
  \<close>
  The handler reads no record of earlier triggers: the file holds none.
\<close>

record trigger_body =
  body_s3Key :: "js_string option"
  body_s3Bucket :: "js_string option"
  body_fileName :: "js_string option"

record lambda_payload =
  payload_fileId :: js_string
  payload_s3Bucket :: js_string
  payload_s3Key :: js_string
  payload_fileName :: js_string
  payload_analysisType :: js_string

datatype trigger_response =
    Trigger_400 js_string
  | Trigger_202 js_string js_string nat
  | Trigger_500 js_string

definition or_else :: "js_string option \<Rightarrow> js_string \<Rightarrow> js_string" where
  \<comment> \<open>\<open>a || b\<close> on strings\<close>
  "or_else a b = (case a of None \<Rightarrow> b | Some s \<Rightarrow> if s \<noteq> [] then s else b)"

definition trigger_payload :: "js_string \<Rightarrow> trigger_body \<Rightarrow> lambda_payload" where
  "trigger_payload fileId body =
     \<lparr>payload_fileId = fileId,
      payload_s3Bucket = or_else (body_s3Bucket body) [],
      payload_s3Key = or_else (body_s3Key body) [],
      payload_fileName = or_else (body_fileName body) (or_else (body_s3Key body) []),
      payload_analysisType = js_of ''static''\<rparr>"

definition post_trigger ::
  "js_string + nat \<Rightarrow> lambda_payload list \<Rightarrow> js_string \<Rightarrow> trigger_body
     \<Rightarrow> trigger_response \<times> lambda_payload list" where
  "post_trigger send invocations fileId body =
     (if fileId = [] \<or> \<not> truthy (body_s3Key body) \<or> \<not> truthy (body_s3Bucket body)
      then (Trigger_400 (js_of ''Missing required parameters''), invocations)
      else
        (case send of
           Inr StatusCode \<Rightarrow>
             (Trigger_202 fileId (js_of ''processing'') StatusCode,
              invocations @ [trigger_payload fileId body])
         | Inl name \<Rightarrow>
             (if name = js_of ''ResourceNotFoundException''
                then Trigger_500 (js_of ''Lambda function not found'')
              else if name = js_of ''InvalidRequestContentException''
                then Trigger_400 (js_of ''Invalid request'')
              else Trigger_500 (js_of ''Failed to trigger analysis''),
              invocations)))"


section \<open>The analysis page (EnhancedSTATAPage): loading and polling\<close>

record RiskAssessment =
  verdict :: "js_string option"
  risk_score_percentage :: "real option"

record StaticAnalysisResult =
  risk_assessment :: "RiskAssessment option"

record UploadedFile =
  file_id :: js_string
  analysisResult :: "StaticAnalysisResult option"

text \<open>The state the page keeps with \<open>useState\<close>, with its initial values.\<close>

record page_state =
  selectedFile :: "UploadedFile option"
  loading :: bool
  error :: "js_string option"
  analysisTriggered :: bool
  pollingAttempts :: nat

definition initial_state :: page_state where
  "initial_state =
     \<lparr>selectedFile = None, loading = True, error = None, analysisTriggered = False,
      pollingAttempts = 0\<rparr>"

text \<open>
  What one call of \<open>getAnalysisResults\<close> comes back with: a response with
  \<open>success\<close> and \<open>data\<close>; a response without them (with its message, if any); or a
  thrown error with its \<open>status\<close> and \<open>message\<close>, if it has them.
  \<^verbatim>\<open>
  const fetchAnalysisResults = async (fileId: string) => {
    try {
      setLoading(true)
      setError(null)
      const results = await getAnalysisResults(fileId)
      if (results.success && results.data) {
        ... setSelectedFile(fileWithAnalysis)
      } else {
        throw new Error(results.message || 'Failed to load analysis results')
      }
    } catch (err: any) {
      if (err.status === 404) {
        setError('Analysis results not found. The analysis may still be in progress, please wait and try again.')
      } else {
        setError(err.message || 'Failed to load analysis results. Please try again.')
      }
      setSelectedFile({ id: fileId, ..., analysisResult: undefined })
    } finally {
      setLoading(false)
    }
  }
  \<close>
\<close>

datatype fetch_outcome =
    Found StaticAnalysisResult
  | Not_Successful "js_string option"
  | Thrown "nat option" "js_string option"

definition is_found :: "fetch_outcome \<Rightarrow> bool" where
  "is_found outcome = (case outcome of Found results \<Rightarrow> True | Not_Successful m \<Rightarrow> False | Thrown c m \<Rightarrow> False)"

definition fetchAnalysisResults :: "fetch_outcome \<Rightarrow> js_string \<Rightarrow> page_state \<Rightarrow> page_state" where
  "fetchAnalysisResults outcome fileId st =
     (case outcome of
        Found results \<Rightarrow>
          st\<lparr>selectedFile := Some \<lparr>file_id = fileId, analysisResult = Some results\<rparr>,
             loading := False, error := None\<rparr>
      | Not_Successful msg \<Rightarrow>
          st\<lparr>selectedFile := Some \<lparr>file_id = fileId, analysisResult = None\<rparr>,
             loading := False,
             error := Some (or_else (Some (or_else msg (js_of ''Failed to load analysis results'')))
                              (js_of ''Failed to load analysis results. Please try again.''))\<rparr>
      | Thrown status msg \<Rightarrow>
          st\<lparr>selectedFile := Some \<lparr>file_id = fileId, analysisResult = None\<rparr>,
             loading := False,
             error := Some (if status = Some 404
                            then js_of ''Analysis results not found. The analysis may still be in progress, please wait and try again.''
                            else or_else msg (js_of ''Failed to load analysis results. Please try again.''))\<rparr>)"

text \<open>
  The polling effect:
  \<^verbatim>\<open>
  useEffect(() => {
    if (analysisTriggered && error && pollingAttempts < 10) {
      const pollTimer = setTimeout(() => {
        const fileId = searchParams.get('fileId')
        if (fileId) {
          setPollingAttempts(prev => prev + 1)
          fetchAnalysisResults(fileId)
        }
      }, 5000)
      return () => clearTimeout(pollTimer)
    }
  }, [analysisTriggered, error, pollingAttempts, searchParams])
  \<close>
  \<open>should_poll\<close> is the guard under which a timer is set, \<open>poll_delay_ms\<close> the delay it
  is set with, \<open>poll_callback\<close> what the timer does once the read it starts has come back.
  \<open>polling\<close> is the loop the effect makes as the state it writes sets it off again:
  \<open>results n\<close> is what the read started at \<open>pollingAttempts = n\<close> comes back with, and
  \<open>delays\<close> holds, for every read made, the delay of the timer before it. With no
  \<open>fileId\<close> the timer changes no state, so the effect does not run again.
\<close>

definition should_poll :: "page_state \<Rightarrow> bool" where
  "should_poll st \<longleftrightarrow> analysisTriggered st \<and> truthy (error st) \<and> pollingAttempts st < 10"

definition poll_delay_ms :: nat where
  "poll_delay_ms = 5000"

definition poll_callback :: "fetch_outcome \<Rightarrow> js_string \<Rightarrow> page_state \<Rightarrow> page_state" where
  "poll_callback outcome fileId st =
     fetchAnalysisResults outcome fileId (st\<lparr>pollingAttempts := pollingAttempts st + 1\<rparr>)"

function polling ::
  "(nat \<Rightarrow> fetch_outcome) \<Rightarrow> js_string option \<Rightarrow> page_state \<Rightarrow> nat list
     \<Rightarrow> page_state \<times> nat list" where
  "polling results fileId st delays =
     (if should_poll st \<and> truthy fileId
      then polling results fileId
             (poll_callback (results (pollingAttempts st)) (or_else fileId []) st)
             (delays @ [poll_delay_ms])
      else (st, delays))"
  by pat_completeness auto
termination
  by (relation "measure (\<lambda>(results, fileId, st, delays). 10 - pollingAttempts st)")
     (auto simp: should_poll_def poll_callback_def fetchAnalysisResults_def
           split: fetch_outcome.splits)

declare polling.simps [simp del]

text \<open>
  The job states of the specification, read off the page state: a job is triggered once
  \<open>analysisTriggered\<close> is set, completed once a result is held, polling while the guard
  of the polling effect holds, and timed out when the result is still missing after the
  tenth polling attempt.
\<close>

datatype job_state = NotTriggered | Triggered | Polling | Completed | TimedOut

definition has_result :: "page_state \<Rightarrow> bool" where
  "has_result st =
     (case selectedFile st of
        None \<Rightarrow> False
      | Some f \<Rightarrow> (case analysisResult f of None \<Rightarrow> False | Some r \<Rightarrow> True))"

definition spec_job_state :: "page_state \<Rightarrow> job_state" where
  "spec_job_state st =
     (if \<not> analysisTriggered st then NotTriggered
      else if has_result st then Completed
      else if \<not> truthy (error st) then Triggered
      else if pollingAttempts st < 10 then Polling
      else TimedOut)"


section \<open>The three-way comparison of the analysis page\<close>

text \<open>
  The comparison panel (INTEGRATION_COMPLETE.md, the code to go into EnhancedSTATAPage).
  \<open>mlAnalysis\<close> and \<open>bertAnalysis\<close> are \<open>null\<close> until the GNN and the BERT engine
  have answered; \<open>analysis\<close> is the result of the rule-based engine (STATA).
\<close>

record ml_analysis =
  is_malicious :: bool
  risk_score :: "real option"

definition present :: "'a option \<Rightarrow> bool" where
  "present x = (case x of None \<Rightarrow> False | Some v \<Rightarrow> True)"

definition count_true :: "bool list \<Rightarrow> nat" where
  \<comment> \<open>\<open>.filter(Boolean).length\<close>\<close>
  "count_true bs = length (filter (\<lambda>b. b) bs)"

text \<open>
  The panel is rendered under the guard \<open>(mlAnalysis || bertAnalysis) && analysis\<close>.
  It holds three columns and, below them, the consensus block. Each column shows the
  risk score of its own engine; the value below is the number handed to the formatting.
  \<^verbatim>\<open>
  {(mlAnalysis || bertAnalysis) && analysis && (
    ...
    {mlAnalysis && ( ... GNN Model ...   {mlAnalysis.risk_score.toFixed(1)}% ... )}
    {bertAnalysis && ( ... BERT Model ... {bertAnalysis.risk_score?.toFixed(1) || 0}% ... )}
    ... STATA (Rules) ... {analysis.risk_assessment?.risk_score_percentage || 0}% ...
    {/* Consensus Analysis */} ...
  )}
  \<close>
  \<open>toFixed\<close> on a missing GNN score throws, and the panel is not rendered then.
  \<open>None\<close> is the page without the panel, \<open>Inl\<close> a rendering that throws.
\<close>

datatype render_error = TypeError

definition number_or_zero :: "real option \<Rightarrow> real" where
  "number_or_zero x = (case x of None \<Rightarrow> 0 | Some v \<Rightarrow> v)"

definition stata_score :: "StaticAnalysisResult \<Rightarrow> real" where
  "stata_score analysis =
     (case risk_assessment analysis of
        None \<Rightarrow> 0
      | Some r \<Rightarrow> number_or_zero (risk_score_percentage r))"

definition comparison_columns ::
  "ml_analysis option \<Rightarrow> ml_analysis option \<Rightarrow> StaticAnalysisResult option
     \<Rightarrow> (render_error + (string \<times> real) list) option" where
  "comparison_columns mlAnalysis bertAnalysis analysis =
     (case analysis of
        None \<Rightarrow> None
      | Some a \<Rightarrow>
          if present mlAnalysis \<or> present bertAnalysis
          then
            (let bert_and_stata =
                   (case bertAnalysis of
                      None \<Rightarrow> []
                    | Some b \<Rightarrow> [(''BERT Model'', number_or_zero (risk_score b))])
                   @ [(''STATA (Rules)'', stata_score a)]
             in case mlAnalysis of
                  None \<Rightarrow> Some (Inr bert_and_stata)
                | Some m \<Rightarrow>
                    (case risk_score m of
                       None \<Rightarrow> Some (Inl TypeError)
                     | Some v \<Rightarrow> Some (Inr ((''GNN Model'', v) # bert_and_stata))))
          else None)"

text \<open>
  The consensus block:
  \<^verbatim>\<open>
  const gnnMalicious = mlAnalysis?.is_malicious || false
  const bertMalicious = bertAnalysis?.is_malicious || false
  const stataMalicious = analysis.risk_assessment?.verdict?.toUpperCase() === 'MALICIOUS'
  const maliciousCount = [gnnMalicious, bertMalicious, stataMalicious].filter(Boolean).length
  const totalAnalyses = [mlAnalysis, bertAnalysis, true].filter(Boolean).length
  const consensus = maliciousCount / totalAnalyses >= 0.5
  ...
  {maliciousCount === totalAnalyses ? 'All Models Agree - MALICIOUS' :
   maliciousCount === 0 ? 'All Models Agree - BENIGN' :
   consensus ? 'Majority Consensus - MALICIOUS' : 'Majority Consensus - BENIGN'}
  ...
  {maliciousCount === totalAnalyses ? ' High confidence in malicious verdict.' :
   maliciousCount === 0 ? ' High confidence file is benign.' :
   ' Review individual analysis details for comprehensive assessment.'}
  \<close>
  The quotient is taken in the reals: the counts are at most 3, and for such operands the
  comparison of the floating-point quotient with 0.5 has the same outcome.
\<close>

definition gnn_vote :: "ml_analysis option \<Rightarrow> bool" where
  "gnn_vote a = (case a of None \<Rightarrow> False | Some m \<Rightarrow> is_malicious m)"

definition stataMalicious :: "(js_string \<Rightarrow> js_string) \<Rightarrow> StaticAnalysisResult \<Rightarrow> bool" where
  "stataMalicious U analysis =
     (case risk_assessment analysis of
        None \<Rightarrow> False
      | Some r \<Rightarrow>
          (case verdict r of
             None \<Rightarrow> False
           | Some v \<Rightarrow> toUpperCase U v = js_of ''MALICIOUS''))"

record consensus_view =
  maliciousCount :: nat
  totalAnalyses :: nat
  consensus :: bool
  heading :: string
  remark :: string

definition consensus_block ::
  "(js_string \<Rightarrow> js_string) \<Rightarrow> ml_analysis option \<Rightarrow> ml_analysis option
     \<Rightarrow> StaticAnalysisResult \<Rightarrow> consensus_view" where
  "consensus_block U mlAnalysis bertAnalysis analysis =
     (let count = count_true [gnn_vote mlAnalysis, gnn_vote bertAnalysis,
                              stataMalicious U analysis];
          total = count_true [present mlAnalysis, present bertAnalysis, True];
          agreed = (real count / real total \<ge> 0.5)
      in \<lparr>maliciousCount = count, totalAnalyses = total, consensus = agreed,
          heading =
            (if count = total then ''All Models Agree - MALICIOUS''
             else if count = 0 then ''All Models Agree - BENIGN''
             else if agreed then ''Majority Consensus - MALICIOUS''
             else ''Majority Consensus - BENIGN''),
          remark =
            (if count = total then '' High confidence in malicious verdict.''
             else if count = 0 then '' High confidence file is benign.''
             else '' Review individual analysis details for comprehensive assessment.'')\<rparr>)"

text \<open>
  The consensus block as the page shows it: inside the panel, after the columns. Where
  the panel is not rendered there is no consensus (\<open>None\<close>), and where a column throws
  the rendering ends with the error.
\<close>

definition three_way_comparison ::
  "(js_string \<Rightarrow> js_string) \<Rightarrow> ml_analysis option \<Rightarrow> ml_analysis option
     \<Rightarrow> StaticAnalysisResult option \<Rightarrow> (render_error + consensus_view) option" where
  "three_way_comparison U mlAnalysis bertAnalysis analysis =
     (case analysis of
        None \<Rightarrow> None
      | Some a \<Rightarrow>
          (case comparison_columns mlAnalysis bertAnalysis analysis of
             None \<Rightarrow> None
           | Some (Inl e) \<Rightarrow> Some (Inl e)
           | Some (Inr columns) \<Rightarrow> Some (Inr (consensus_block U mlAnalysis bertAnalysis a))))"


section \<open>README.md: the majority voting algorithm\<close>

text \<open>
  \<^verbatim>\<open>
  def consensus_verdict(stata_result, gnn_result, bert_result):
      votes = {
          'stata': stata_result['verdict'] == 'MALICIOUS',
          'gnn': gnn_result['is_malicious'],
          'bert': bert_result['is_malicious']
      }
      malicious_count = sum(votes.values())
      total_analyses = len(votes)
      is_malicious = malicious_count >= (total_analyses / 2)
      confidence_map = {
          3: "High confidence (unanimous)",
          2: "Medium confidence (majority)",
          1: "Low confidence (minority)",
          0: "High confidence benign (unanimous)"
      }
      return {
          'final_verdict': 'MALICIOUS' if is_malicious else 'BENIGN',
          'agreement_level': malicious_count,
          'confidence': confidence_map[malicious_count],
          'individual_verdicts': votes
      }
  \<close>
  A key missing from \<open>confidence_map\<close> is a \<open>KeyError\<close>, here \<open>None\<close>.
\<close>

definition confidence_map :: "nat \<rightharpoonup> string" where
  "confidence_map =
     [3 \<mapsto> ''High confidence (unanimous)'',
      2 \<mapsto> ''Medium confidence (majority)'',
      1 \<mapsto> ''Low confidence (minority)'',
      0 \<mapsto> ''High confidence benign (unanimous)'']"

record consensus_result =
  final_verdict :: string
  agreement_level :: nat
  confidence :: string
  individual_verdicts :: "bool list"

definition consensus_verdict :: "string \<Rightarrow> bool \<Rightarrow> bool \<Rightarrow> consensus_result option" where
  "consensus_verdict stata_verdict gnn_is_malicious bert_is_malicious =
     (let votes = [stata_verdict = ''MALICIOUS'', gnn_is_malicious, bert_is_malicious];
          malicious_count = count_true votes;
          total_analyses = length votes;
          is_malicious_result = (real malicious_count \<ge> real total_analyses / 2)
      in case confidence_map malicious_count of
           None \<Rightarrow> None
         | Some c \<Rightarrow>
             Some \<lparr>final_verdict = (if is_malicious_result then ''MALICIOUS'' else ''BENIGN''),
                   agreement_level = malicious_count,
                   confidence = c,
                   individual_verdicts = votes\<rparr>)"

text \<open>
  The confidence labels of the specification, as its sentence gives them: NoData for no
  verdict, Unanimous when none or all say malicious, Majority when at least half but not
  all do (an exact tie included), Minority otherwise.
\<close>

datatype confidence_label = Unanimous | Majority | Minority | NoData

definition spec_confidenceLabel :: "nat \<Rightarrow> nat \<Rightarrow> confidence_label" where
  "spec_confidenceLabel agreementCount totalReporting =
     (if totalReporting = 0 then NoData
      else if agreementCount = 0 \<or> agreementCount = totalReporting then Unanimous
      else if totalReporting \<le> agreementCount * 2 then Majority
      else Minority)"

text \<open>The votes of the engines that have reported, the rule-based engine always among them.\<close>

definition reporting_votes ::
  "(js_string \<Rightarrow> js_string) \<Rightarrow> ml_analysis option \<Rightarrow> ml_analysis option
     \<Rightarrow> StaticAnalysisResult \<Rightarrow> bool list" where
  "reporting_votes U mlAnalysis bertAnalysis analysis =
     (case mlAnalysis of None \<Rightarrow> [] | Some m \<Rightarrow> [is_malicious m])
     @ (case bertAnalysis of None \<Rightarrow> [] | Some b \<Rightarrow> [is_malicious b])
     @ [stataMalicious U analysis]"


section \<open>Risk scoring of the rule-based engine\<close>

datatype risk_category = Safe | Suspicious | Malicious

text \<open>
  Modelled from the spec: the combined score of the rule-based engine's normalization
  step. The engine is experiment_agent/lambda-package/lambda_analyzer.py, which is not
  among the sources; the specification and README.md ("Risk Scoring") give the score as
  a weighted average, 60 percent threat-pattern score and 40 percent behavioral score.
\<close>

definition combined_score :: "real \<Rightarrow> real \<Rightarrow> real" where
  "combined_score threat_score behavioral_score = 0.6 * threat_score + 0.4 * behavioral_score"

text \<open>
  Modelled from the spec: the category the same step derives from the combined score,
  Malicious from 60, Suspicious from 35 and Safe below (README.md: Malicious at 60
  percent and above, Suspicious at 35 percent and above, Safe below 35 percent).
\<close>

definition category_of :: "real \<Rightarrow> risk_category" where
  "category_of score =
     (if score \<ge> 60 then Malicious else if score \<ge> 35 then Suspicious else Safe)"

text \<open>
  The risk gauge of the page, from the source:
  \<^verbatim>\<open>
  risk.risk_score_percentage >= 60 ? "bg-gradient-to-r from-red-500 to-red-600" :
  risk.risk_score_percentage >= 35 ? "bg-gradient-to-r from-yellow-500 to-yellow-600" :
  "bg-gradient-to-r from-green-500 to-green-600"
  \<close>
\<close>

definition gauge_class :: "real \<Rightarrow> string" where
  "gauge_class percentage =
     (if percentage \<ge> 60 then ''bg-gradient-to-r from-red-500 to-red-600''
      else if percentage \<ge> 35 then ''bg-gradient-to-r from-yellow-500 to-yellow-600''
      else ''bg-gradient-to-r from-green-500 to-green-600'')"


section \<open>Properties of sanitizeFilename\<close>

lemma lower_unit_class:
  "name_class c \<or> c = underscore \<Longrightarrow> clean_unit (lower_unit c)"
  unfolding name_class_def clean_unit_def lower_unit_def is_upper_def is_lower_def
    is_digit_def dot_def hyphen_def underscore_def
  by (auto simp: word_le_nat_alt unat_word_ariths)

lemma lower_unit_underscore:
  "name_class c \<or> c = underscore \<Longrightarrow> lower_unit c = underscore \<longleftrightarrow> c = underscore"
  unfolding name_class_def lower_unit_def is_upper_def is_lower_def
    is_digit_def dot_def hyphen_def underscore_def
  by (auto simp: word_le_nat_alt unat_word_ariths)

lemma clean_unit_fixed:
  "clean_unit c \<Longrightarrow> lower_unit c = c \<and> (if name_class c then c else underscore) = c \<and> c < 0x80"
  unfolding name_class_def clean_unit_def lower_unit_def is_upper_def is_lower_def
    is_digit_def dot_def hyphen_def underscore_def
  by (auto simp: word_le_nat_alt word_less_nat_alt)

lemma class_ascii: "name_class c \<or> c = underscore \<Longrightarrow> c < 0x80"
  unfolding name_class_def is_upper_def is_lower_def is_digit_def dot_def hyphen_def
    underscore_def
  by (auto simp: word_le_nat_alt word_less_nat_alt)

lemma replace_outside_class_units:
  "c \<in> set (replace_outside_class s) \<Longrightarrow> name_class c \<or> c = underscore"
  by (auto simp: replace_outside_class_def)

lemma replace_underscore_runs_subset:
  "set (replace_underscore_runs s) \<subseteq> set s"
proof (induction s rule: replace_underscore_runs.induct)
  case 1
  show ?case by simp
next
  case (2 c cs)
  show ?case
  proof (cases "c = underscore \<and> cs \<noteq> [] \<and> hd cs = underscore")
    case True
    have "set (dropWhile (\<lambda>d. d = underscore) cs) \<subseteq> set cs"
      by (auto dest: set_dropWhileD)
    with True "2.IH"(1) show ?thesis by auto
  next
    case False
    with "2.IH"(2) show ?thesis by auto
  qed
qed

lemma replace_underscore_runs_hd:
  "s \<noteq> [] \<Longrightarrow> replace_underscore_runs s \<noteq> [] \<and> hd (replace_underscore_runs s) = hd s"
  by (cases s) auto

lemma replace_underscore_runs_hd_other:
  "t = [] \<or> hd t \<noteq> underscore \<Longrightarrow>
   replace_underscore_runs t = [] \<or> hd (replace_underscore_runs t) \<noteq> underscore"
  by (cases t) auto

lemma single_underscores_Cons:
  "single_underscores (a # s) \<longleftrightarrow>
     (s = [] \<or> ((a \<noteq> underscore \<or> hd s \<noteq> underscore) \<and> single_underscores s))"
  by (cases s) auto

lemma replace_underscore_runs_single:
  "single_underscores (replace_underscore_runs s)"
proof (induction s rule: replace_underscore_runs.induct)
  case 1
  show ?case by simp
next
  case (2 c cs)
  show ?case
  proof (cases "c = underscore \<and> cs \<noteq> [] \<and> hd cs = underscore")
    case True
    let ?r = "dropWhile (\<lambda>d. d = underscore) cs"
    have "?r = [] \<or> hd ?r \<noteq> underscore"
      using hd_dropWhile [of "\<lambda>d. d = underscore" cs] by blast
    then have "replace_underscore_runs ?r = [] \<or> hd (replace_underscore_runs ?r) \<noteq> underscore"
      by (rule replace_underscore_runs_hd_other)
    with True "2.IH"(1) show ?thesis
      by (auto simp: single_underscores_Cons)
  next
    case False
    show ?thesis
    proof (cases cs)
      case Nil
      then show ?thesis by simp
    next
      case (Cons d ds)
      with False "2.IH"(2) replace_underscore_runs_hd [of cs] show ?thesis
        by (auto simp: single_underscores_Cons)
    qed
  qed
qed

lemma replace_underscore_runs_fixed:
  "single_underscores s \<Longrightarrow> replace_underscore_runs s = s"
proof (induction s rule: single_underscores.induct)
  case (1 a b cs)
  then show ?case by auto
qed simp_all

lemma single_underscores_map:
  assumes "\<And>c. c \<in> set s \<Longrightarrow> f c = underscore \<longleftrightarrow> c = underscore"
  shows "single_underscores (map f s) = single_underscores s"
  using assms
proof (induction s rule: single_underscores.induct)
  case (1 a b cs)
  then show ?case by auto
qed simp_all

lemma sanitizeFilename_eq:
  "sanitizeFilename U s = map lower_unit (replace_underscore_runs (replace_outside_class s))"
proof -
  have "is_ascii (replace_underscore_runs (replace_outside_class s))"
    unfolding is_ascii_def list_all_iff
    using replace_underscore_runs_subset [of "replace_outside_class s"]
      replace_outside_class_units [of _ s] class_ascii
    by blast
  then show ?thesis by (simp add: sanitizeFilename_def toLowerCase_def)
qed

lemma sanitizeFilename_clean:
  "c \<in> set (sanitizeFilename U s) \<Longrightarrow> clean_unit c"
  unfolding sanitizeFilename_eq
  using replace_underscore_runs_subset [of "replace_outside_class s"]
    replace_outside_class_units [of _ s] lower_unit_class
  by auto

lemma sanitizeFilename_single:
  "single_underscores (sanitizeFilename U s)"
proof -
  let ?r = "replace_underscore_runs (replace_outside_class s)"
  have "\<And>c. c \<in> set ?r \<Longrightarrow> lower_unit c = underscore \<longleftrightarrow> c = underscore"
    using replace_underscore_runs_subset [of "replace_outside_class s"]
      replace_outside_class_units [of _ s] lower_unit_underscore
    by blast
  then have "single_underscores (map lower_unit ?r) = single_underscores ?r"
    by (rule single_underscores_map)
  then show ?thesis
    by (simp add: sanitizeFilename_eq replace_underscore_runs_single)
qed

lemma sanitize_clean_fixed:
  assumes "\<And>c. c \<in> set t \<Longrightarrow> clean_unit c" and "single_underscores t"
  shows "sanitizeFilename U t = t"
proof -
  have a: "replace_outside_class t = t"
    unfolding replace_outside_class_def using assms(1) clean_unit_fixed
    by (simp add: map_idI)
  have b: "replace_underscore_runs t = t"
    using assms(2) by (rule replace_underscore_runs_fixed)
  have c: "map lower_unit t = t"
    using assms(1) clean_unit_fixed by (simp add: map_idI)
  show ?thesis by (simp add: sanitizeFilename_eq a b c)
qed

text \<open>
  C10. sanitizeFilename is idempotent: applied to its own output it returns that output,
  for every input string, because the output consists of lowercase letters, digits, dots,
  hyphens and underscores of which no two are adjacent.
\<close>

theorem sanitizeFilename_idempotent:
  "sanitizeFilename U (sanitizeFilename U s) = sanitizeFilename U s
   \<and> list_all clean_unit (sanitizeFilename U s)
   \<and> single_underscores (sanitizeFilename U s)"
proof -
  have "sanitizeFilename U (sanitizeFilename U s) = sanitizeFilename U s"
    by (rule sanitize_clean_fixed) (auto intro: sanitizeFilename_clean sanitizeFilename_single)
  moreover have "list_all clean_unit (sanitizeFilename U s)"
    unfolding list_all_iff using sanitizeFilename_clean by blast
  ultimately show ?thesis
    using sanitizeFilename_single by blast
qed


section \<open>Properties of the upload routes\<close>

lemma split_on_nonempty: "split_on sep s \<noteq> []"
  by (induction s) (auto split: list.splits)

lemma split_on_segment:
  "sep \<notin> set a \<Longrightarrow> split_on sep (a @ sep # r) = a # split_on sep r"
  by (induction a) (auto split: list.splits)

lemma uuid_no_slash: "uuid_shaped j \<Longrightarrow> slash \<notin> set j \<and> j \<noteq> []"
proof
  assume u: "uuid_shaped j"
  then have "\<not> uuid_unit slash \<Longrightarrow> slash \<notin> set j"
    by (auto simp: uuid_shaped_def list_all_iff)
  moreover have "\<not> uuid_unit slash"
    by (simp add: uuid_unit_def slash_def hyphen_def is_digit_def)
  ultimately show "slash \<notin> set j" by simp
  from u show "j \<noteq> []" by (auto simp: uuid_shaped_def)
qed

lemma uploadPath_split:
  "slash \<notin> set j \<Longrightarrow>
   split_on slash (uploadPath @ j @ [slash] @ f) = js_of ''uploads'' # j # split_on slash f"
proof -
  assume j: "slash \<notin> set j"
  have p: "uploadPath = js_of ''uploads'' @ [slash]"
    by (simp add: uploadPath_def js_of_def slash_def)
  have q: "slash \<notin> set (js_of ''uploads'')"
    by (simp add: js_of_def slash_def)
  have "split_on slash (js_of ''uploads'' @ slash # (j @ slash # f))
          = js_of ''uploads'' # split_on slash (j @ slash # f)"
    using q by (rule split_on_segment)
  also have "split_on slash (j @ slash # f) = j # split_on slash f"
    using j by (rule split_on_segment)
  finally show ?thesis by (simp add: p)
qed

lemma nth_opt_upload_key:
  assumes "uuid_shaped j"
  shows "nth_opt (split_on slash (uploadPath @ j @ [slash] @ f)) 1 = Some j"
proof -
  from assms have "slash \<notin> set j"
    using uuid_no_slash by auto
  then have eq: "split_on slash (uploadPath @ j @ [slash] @ f)
                   = js_of ''uploads'' # j # split_on slash f"
    by (rule uploadPath_split)
  show ?thesis
    unfolding eq by (simp add: nth_opt_def)
qed

lemma list_entry_upload_key:
  assumes "uuid_shaped j"
  shows "entry_id (list_entry (uploadPath @ j @ [slash] @ f)) = j
         \<and> entry_jobId (list_entry (uploadPath @ j @ [slash] @ f)) = Some j"
proof -
  from assms have "j \<noteq> []"
    using uuid_no_slash by auto
  with nth_opt_upload_key [OF assms, of f] show ?thesis
    by (simp add: list_entry_def Let_def)
qed

text \<open>
  C8. For every jobId the upload status query answers 200 with success, status
  'uploaded' and the jobId it was given; the answer does not depend on the bucket, so it
  is the same whether or not an object of that job exists.
\<close>

theorem get_status_ignores_storage:
  "get_status bucket jobId = get_status bucket' jobId
   \<and> http_status (get_status bucket jobId) = 200
   \<and> res_success (get_status bucket jobId)
   \<and> job_status (res_data (get_status bucket jobId)) = js_of ''uploaded''
   \<and> status_jobId (res_data (get_status bucket jobId)) = jobId"
  by (simp add: get_status_def)

text \<open>
  C9. Upload-key round trip: when the upload endpoint accepts a file, the key it stores
  the object under is uploadPath + jobId + '/' + filename, with the jobId the identifier
  just generated, and the entry the listing endpoint computes from that key (second
  '/'-separated segment) carries that jobId as its id.
\<close>

theorem upload_key_round_trip:
  assumes "uuid_shaped (uuid env)"
    and "post_file U env bucket req_file = (Status_200 d, bucket')"
  shows "data_s3Key d = uploadPath @ data_jobId d @ [slash] @ data_filename d
         \<and> data_jobId d = uuid env
         \<and> bucket' (data_s3Key d) \<noteq> None
         \<and> nth_opt (split_on slash (data_s3Key d)) 1 = Some (data_jobId d)
         \<and> entry_id (list_entry (data_s3Key d)) = data_jobId d
         \<and> entry_jobId (list_entry (data_s3Key d)) = Some (data_jobId d)"
proof -
  from assms(2) obtain upl where f: "req_file = Some upl"
    by (cases req_file) (auto simp: post_file_def)
  from assms(2) f have e: "send_error env = None"
    by (cases "send_error env") (auto simp: post_file_def Let_def)
  define name where
    "name = generateUniqueFilename (now env) (random env) (sanitizeFilename U (originalname upl))"
  from assms(2) f e have d: "data_jobId d = uuid env" "data_filename d = name"
    "data_s3Key d = uploadPath @ uuid env @ [slash] @ name"
    and b: "bucket' (uploadPath @ uuid env @ [slash] @ name) \<noteq> None"
    by (auto simp: post_file_def Let_def name_def)
  have n: "nth_opt (split_on slash (uploadPath @ uuid env @ [slash] @ name)) 1 = Some (uuid env)"
    using assms(1) by (rule nth_opt_upload_key)
  show ?thesis
    using d b n list_entry_upload_key [OF assms(1), of name] by simp
qed

lemma sanitizeFilename_example: "sanitizeFilename (\<lambda>s. s) (js_of ''My  File.SH'') = js_of ''my_file.sh''"
  by (simp add: sanitizeFilename_def toLowerCase_def is_ascii_def replace_outside_class_def js_of_def
     name_class_def is_lower_def is_upper_def is_digit_def dot_def hyphen_def underscore_def lower_unit_def)

lemma generateUniqueFilename_example: "generateUniqueFilename (js_of ''1700000000000'') (js_of ''k3j2h1'') (js_of ''my_file.sh'') = js_of ''1700000000000-k3j2h1-my_file.sh''"
  by (simp add: generateUniqueFilename_def js_of_def dot_def hyphen_def)

lemma uuid_shaped_example: "uuid_shaped (js_of ''123e4567-e89b-42d3-a456-426614174000'')"
  by (simp add: uuid_shaped_def uuid_unit_def js_of_def is_digit_def hyphen_def)

theorem upload_key_round_trip_witness:
  "uuid_shaped (js_of ''123e4567-e89b-42d3-a456-426614174000'')
   \<and> fst (post_file (\<lambda>s. s)
        \<lparr>uuid = js_of ''123e4567-e89b-42d3-a456-426614174000'', now = js_of ''1700000000000'',
         random = js_of ''k3j2h1'', send_error = None\<rparr>
        Map.empty
        (Some \<lparr>originalname = js_of ''My  File.SH'', buffer = [0x23, 0x21], mimetype = js_of ''text/x-sh'', file_size = 2\<rparr>))
      = Status_200
         \<lparr>data_jobId = js_of ''123e4567-e89b-42d3-a456-426614174000'',
          data_filename = js_of ''1700000000000-k3j2h1-my_file.sh'',
          data_originalName = js_of ''My  File.SH'', data_size = 2,
          data_mimeType = js_of ''text/x-sh'',
          data_s3Key = js_of ''uploads/123e4567-e89b-42d3-a456-426614174000/1700000000000-k3j2h1-my_file.sh''\<rparr>
   \<and> entry_id (list_entry (js_of ''uploads/123e4567-e89b-42d3-a456-426614174000/1700000000000-k3j2h1-my_file.sh''))
      = js_of ''123e4567-e89b-42d3-a456-426614174000''"
  (is "?U \<and> fst ?P = Status_200 ?D \<and> ?E")
proof -
  have u: "uuid_shaped (uuid \<lparr>uuid = js_of ''123e4567-e89b-42d3-a456-426614174000'', now = js_of ''1700000000000'',
         random = js_of ''k3j2h1'', send_error = None\<rparr>)"
    by (simp add: uuid_shaped_example)
  have p: "fst ?P = Status_200 ?D"
    apply (simp add: post_file_def Let_def sanitizeFilename_example generateUniqueFilename_example)
    apply (simp add: uploadPath_def js_of_def slash_def)
    done
  then have "?P = (Status_200 ?D, snd ?P)"
    by (metis prod.collapse)
  from upload_key_round_trip [OF u this] have "entry_id (list_entry (data_s3Key ?D)) = data_jobId ?D"
    by blast
  then have ?E by simp
  with p uuid_shaped_example show ?thesis by blast
qed


section \<open>Properties of the polling effect\<close>

lemma or_else_truthy: "b \<noteq> [] \<Longrightarrow> or_else a b \<noteq> []"
  by (auto simp: or_else_def split: option.splits)

lemma fetch_failed:
  assumes "\<not> is_found outcome"
  shows "analysisTriggered (fetchAnalysisResults outcome f st) = analysisTriggered st
         \<and> pollingAttempts (fetchAnalysisResults outcome f st) = pollingAttempts st
         \<and> truthy (error (fetchAnalysisResults outcome f st))
         \<and> \<not> has_result (fetchAnalysisResults outcome f st)"
proof (cases outcome)
  case (Found r)
  with assms show ?thesis by (simp add: is_found_def)
next
  case (Not_Successful m)
  then show ?thesis
    by (simp add: fetchAnalysisResults_def truthy_def has_result_def or_else_truthy js_of_def)
next
  case (Thrown c m)
  then show ?thesis
    by (simp add: fetchAnalysisResults_def truthy_def has_result_def or_else_truthy js_of_def)
qed

lemma fetch_attempts: "pollingAttempts (fetchAnalysisResults outcome f st) = pollingAttempts st"
  by (simp add: fetchAnalysisResults_def split: fetch_outcome.splits)

lemma polling_length:
  "length (snd (polling results fileId st delays)) \<le> length delays + (10 - pollingAttempts st)"
proof (induction results fileId st delays rule: polling.induct)
  case (1 results fileId st delays)
  show ?case
  proof (cases "should_poll st \<and> truthy fileId")
    case True
    then have lt: "pollingAttempts st < 10" by (simp add: should_poll_def)
    have step: "polling results fileId st delays
                  = polling results fileId
                      (poll_callback (results (pollingAttempts st)) (or_else fileId []) st)
                      (delays @ [poll_delay_ms])"
      using True by (subst polling.simps) simp
    from "1.IH" [OF True] lt show ?thesis
      unfolding step by (simp add: poll_callback_def fetch_attempts)
  next
    case False
    then have "polling results fileId st delays = (st, delays)"
      by (subst polling.simps) auto
    then show ?thesis by simp
  qed
qed

lemma poll_callback_failed:
  assumes "\<not> is_found outcome"
  shows "analysisTriggered (poll_callback outcome f st) = analysisTriggered st
         \<and> pollingAttempts (poll_callback outcome f st) = pollingAttempts st + 1
         \<and> truthy (error (poll_callback outcome f st))
         \<and> \<not> has_result (poll_callback outcome f st)"
  using fetch_failed [OF assms, of f "st\<lparr>pollingAttempts := pollingAttempts st + 1\<rparr>"]
  by (simp add: poll_callback_def)

lemma polling_failing:
  "\<forall>n. \<not> is_found (results n) \<Longrightarrow> truthy fileId \<Longrightarrow>
   analysisTriggered st \<Longrightarrow> truthy (error st) \<Longrightarrow> pollingAttempts st \<le> 10 \<Longrightarrow>
         pollingAttempts (fst (polling results fileId st delays)) = 10
         \<and> snd (polling results fileId st delays)
             = delays @ replicate (10 - pollingAttempts st) poll_delay_ms
         \<and> analysisTriggered (fst (polling results fileId st delays))
         \<and> truthy (error (fst (polling results fileId st delays)))
         \<and> (pollingAttempts st < 10 \<longrightarrow> \<not> has_result (fst (polling results fileId st delays)))"
proof (induction results fileId st delays rule: polling.induct)
  case (1 results fileId st delays)
  show ?case
  proof (cases "pollingAttempts st < 10")
    case True
    let ?st = "poll_callback (results (pollingAttempts st)) (or_else fileId []) st"
    from True "1.prems" have g: "should_poll st \<and> truthy fileId"
      by (simp add: should_poll_def)
    from "1.prems"(1) have nf: "\<not> is_found (results (pollingAttempts st))" by blast
    have f: "analysisTriggered ?st" "truthy (error ?st)" "pollingAttempts ?st = pollingAttempts st + 1"
      "\<not> has_result ?st"
      using poll_callback_failed [OF nf, of "or_else fileId []" st] "1.prems"(3)
      by blast+
    from f(3) True have le: "pollingAttempts ?st \<le> 10" by simp
    note ih = "1.IH" [OF g "1.prems"(1) "1.prems"(2) f(1) f(2) le]
    have step: "polling results fileId st delays = polling results fileId ?st (delays @ [poll_delay_ms])"
      using g by (subst polling.simps) simp
    have rep: "replicate (10 - pollingAttempts st) poll_delay_ms
                 = poll_delay_ms # replicate (10 - pollingAttempts ?st) poll_delay_ms"
      using True f(3) by (cases "10 - pollingAttempts st") auto
    show ?thesis
    proof (cases "pollingAttempts ?st < 10")
      case True
      with ih show ?thesis unfolding step rep by simp
    next
      case False
      with le have ten: "pollingAttempts ?st = 10" by simp
      then have "\<not> should_poll ?st" by (simp add: should_poll_def)
      then have stop: "polling results fileId ?st (delays @ [poll_delay_ms]) = (?st, delays @ [poll_delay_ms])"
        by (subst polling.simps) simp
      show ?thesis unfolding step rep stop using f ten by simp
    qed
  next
    case False
    with "1.prems" have ten: "pollingAttempts st = 10" by simp
    then have "\<not> should_poll st" by (simp add: should_poll_def)
    then have "polling results fileId st delays = (st, delays)"
      by (subst polling.simps) simp
    with ten "1.prems" show ?thesis by simp
  qed
qed

text \<open>
  C6. A job that enters the polling state and whose result never becomes available is
  read exactly ten times, each read 5000 ms after the timer was set; after the tenth
  read the guard of the effect is false, no further timer is set, and the job is timed
  out. Whatever the reads return, polling makes at most ten of them and ends.
\<close>

theorem polling_times_out:
  assumes "spec_job_state st = Polling" and "pollingAttempts st = 0" and "truthy fileId"
    and "\<forall>n. \<not> is_found (results n)"
  shows "snd (polling results fileId st []) = replicate 10 5000
         \<and> pollingAttempts (fst (polling results fileId st [])) = 10
         \<and> \<not> should_poll (fst (polling results fileId st []))
         \<and> spec_job_state (fst (polling results fileId st [])) = TimedOut
         \<and> length (snd (polling results' fileId' st0 [])) \<le> 10"
proof -
  from assms(1) have t: "analysisTriggered st" "truthy (error st)"
    by (auto simp: spec_job_state_def split: if_splits)
  from assms(2) have le: "pollingAttempts st \<le> 10" by simp
  note p = polling_failing [OF assms(4) assms(3) t le, of "[]"]
  from p assms(2) have "snd (polling results fileId st []) = replicate 10 5000"
    by (simp add: poll_delay_ms_def)
  moreover from p have ten: "pollingAttempts (fst (polling results fileId st [])) = 10"
    by simp
  moreover from ten have "\<not> should_poll (fst (polling results fileId st []))"
    by (simp add: should_poll_def)
  moreover from p ten assms(2) have "spec_job_state (fst (polling results fileId st [])) = TimedOut"
    by (simp add: spec_job_state_def)
  moreover have "length (snd (polling results' fileId' st0 [])) \<le> 10"
    using polling_length [of results' fileId' st0 "[]"] by simp
  ultimately show ?thesis by blast
qed

theorem polling_times_out_witness:
  "spec_job_state
     \<lparr>selectedFile = Some \<lparr>file_id = js_of ''f1'', analysisResult = None\<rparr>, loading = False,
      error = Some (js_of ''Analysis results not found. The analysis may still be in progress, please wait and try again.''),
      analysisTriggered = True, pollingAttempts = 0\<rparr> = Polling
   \<and> snd (polling (\<lambda>n. Thrown (Some 404) None) (Some (js_of ''f1''))
     \<lparr>selectedFile = Some \<lparr>file_id = js_of ''f1'', analysisResult = None\<rparr>, loading = False,
      error = Some (js_of ''Analysis results not found. The analysis may still be in progress, please wait and try again.''),
      analysisTriggered = True, pollingAttempts = 0\<rparr> [])
     = [5000, 5000, 5000, 5000, 5000, 5000, 5000, 5000, 5000, 5000]
   \<and> spec_job_state (fst (polling (\<lambda>n. Thrown (Some 404) None) (Some (js_of ''f1''))
     \<lparr>selectedFile = Some \<lparr>file_id = js_of ''f1'', analysisResult = None\<rparr>, loading = False,
      error = Some (js_of ''Analysis results not found. The analysis may still be in progress, please wait and try again.''),
      analysisTriggered = True, pollingAttempts = 0\<rparr> [])) = TimedOut"
  (is "spec_job_state ?st = Polling \<and> snd (polling ?r ?f ?st []) = ?ds \<and> _")
proof -
  have a: "spec_job_state ?st = Polling"
    by (simp add: spec_job_state_def has_result_def truthy_def js_of_def)
  have b: "pollingAttempts ?st = 0" by simp
  have c: "truthy ?f" by (simp add: truthy_def js_of_def)
  have d: "\<forall>n. \<not> is_found (?r n)" by (simp add: is_found_def)
  have e: "replicate 10 (5000::nat) = ?ds" by (simp add: numeral_eq_Suc)
  from polling_times_out [OF a b c d] a e show ?thesis by simp
qed


section \<open>Properties of the trigger route\<close>

text \<open>
  C7 (as amended). A trigger request with a fileId, an s3Key and an s3Bucket, which Lambda
  accepts, adds one invocation for that fileId to those already accepted, whatever they
  are, and answers 202 'processing': the route keeps no table of jobs and does not look
  for an analysis of the same file that is still under way.
\<close>

theorem trigger_always_invokes:
  assumes "fileId \<noteq> []" and "truthy (body_s3Key body)" and "truthy (body_s3Bucket body)"
  shows "post_trigger (Inr code) invocations fileId body
           = (Trigger_202 fileId (js_of ''processing'') code,
              invocations @ [trigger_payload fileId body])
         \<and> payload_fileId (trigger_payload fileId body) = fileId
         \<and> length (snd (post_trigger (Inr code) invocations fileId body))
             = length invocations + 1"
  using assms by (simp add: post_trigger_def trigger_payload_def)

theorem trigger_always_invokes_witness:
  "post_trigger (Inr 202)
     [trigger_payload (js_of ''f1'')
        \<lparr>body_s3Key = Some (js_of ''uploads/f1/a.sh''), body_s3Bucket = Some (js_of ''bucket''),
         body_fileName = Some (js_of ''a.sh'')\<rparr>]
     (js_of ''f1'')
     \<lparr>body_s3Key = Some (js_of ''uploads/f1/a.sh''), body_s3Bucket = Some (js_of ''bucket''),
      body_fileName = Some (js_of ''a.sh'')\<rparr>
   = (Trigger_202 (js_of ''f1'') (js_of ''processing'') 202,
      [trigger_payload (js_of ''f1'')
        \<lparr>body_s3Key = Some (js_of ''uploads/f1/a.sh''), body_s3Bucket = Some (js_of ''bucket''),
         body_fileName = Some (js_of ''a.sh'')\<rparr>,
       trigger_payload (js_of ''f1'')
        \<lparr>body_s3Key = Some (js_of ''uploads/f1/a.sh''), body_s3Bucket = Some (js_of ''bucket''),
         body_fileName = Some (js_of ''a.sh'')\<rparr>])"
  (is "post_trigger _ [?p] ?f ?b = _")
proof -
  have a: "?f \<noteq> []" by (simp add: js_of_def)
  have b: "truthy (body_s3Key ?b)" by (simp add: truthy_def js_of_def)
  have c: "truthy (body_s3Bucket ?b)" by (simp add: truthy_def js_of_def)
  from trigger_always_invokes [OF a b c, of 202 "[?p]"] show ?thesis by simp
qed

text \<open>
  Triggering the same file twice while nothing has completed leaves two invocations for
  it: the second request does not attach to the first.
\<close>

theorem retrigger_counterexample:
  "map payload_fileId
     (snd (post_trigger (Inr 202)
        (snd (post_trigger (Inr 202) [] (js_of ''f1'')
           \<lparr>body_s3Key = Some (js_of ''uploads/f1/a.sh''), body_s3Bucket = Some (js_of ''bucket''),
            body_fileName = Some (js_of ''a.sh'')\<rparr>))
        (js_of ''f1'')
        \<lparr>body_s3Key = Some (js_of ''uploads/f1/a.sh''), body_s3Bucket = Some (js_of ''bucket''),
         body_fileName = Some (js_of ''a.sh'')\<rparr>))
     = [js_of ''f1'', js_of ''f1'']"
  by (simp add: post_trigger_def trigger_payload_def truthy_def or_else_def js_of_def)


section \<open>Properties of the consensus and of the risk categories\<close>

lemma toUpperCase_Malicious:
  "toUpperCase U (js_of ''Malicious'') = js_of ''MALICIOUS''"
  by (simp add: toUpperCase_def is_ascii_def js_of_def upper_unit_def is_lower_def)

lemma toUpperCase_Safe:
  "toUpperCase U (js_of ''Safe'') = js_of ''SAFE''"
  by (simp add: toUpperCase_def is_ascii_def js_of_def upper_unit_def is_lower_def)

lemma stataMalicious_example:
  "stataMalicious U \<lparr>risk_assessment = Some \<lparr>verdict = Some (js_of ''Malicious''),
                                              risk_score_percentage = p\<rparr>\<rparr>"
  by (simp add: stataMalicious_def toUpperCase_Malicious)

lemma stataMalicious_safe:
  "\<not> stataMalicious U \<lparr>risk_assessment = Some \<lparr>verdict = Some (js_of ''Safe''),
                                                risk_score_percentage = p\<rparr>\<rparr>"
  by (simp add: stataMalicious_def toUpperCase_Safe) (simp add: js_of_def)

lemma consensus_block_counts:
  "totalAnalyses (consensus_block U ml bert a) = length (reporting_votes U ml bert a)
   \<and> maliciousCount (consensus_block U ml bert a) = count_true (reporting_votes U ml bert a)"
  by (cases ml; cases bert)
     (simp_all add: consensus_block_def Let_def count_true_def present_def gnn_vote_def
        reporting_votes_def)

lemma consensus_block_total:
  "1 \<le> totalAnalyses (consensus_block U ml bert a) \<and> totalAnalyses (consensus_block U ml bert a) \<le> 3"
  by (cases ml; cases bert)
     (simp_all add: consensus_block_def Let_def count_true_def present_def)

lemma consensus_block_total_rendered:
  "present ml \<or> present bert \<Longrightarrow> 2 \<le> totalAnalyses (consensus_block U ml bert a)"
  by (cases ml; cases bert)
     (simp_all add: consensus_block_def Let_def count_true_def present_def)

lemma half_iff:
  "0 < t \<Longrightarrow> (real c / real t \<ge> 0.5) = (t \<le> c * 2)"
proof -
  assume t: "0 < t"
  have "(real c / real t \<ge> 0.5) = (real t * 0.5 \<le> real c)"
    using t by (simp add: pos_le_divide_eq mult.commute)
  also have "\<dots> = (real t \<le> real (c * 2))" by simp
  also have "\<dots> = (t \<le> c * 2)" by (simp only: of_nat_le_iff)
  finally show ?thesis .
qed

lemma consensus_block_consensus:
  "consensus (consensus_block U ml bert a)
     = (totalAnalyses (consensus_block U ml bert a) \<le> maliciousCount (consensus_block U ml bert a) * 2)"
proof -
  define c where "c = count_true [gnn_vote ml, gnn_vote bert, stataMalicious U a]"
  define t where "t = count_true [present ml, present bert, True]"
  have pos: "0 < t"
    by (simp add: t_def count_true_def)
  have "consensus (consensus_block U ml bert a) = (real c / real t \<ge> 0.5)"
    unfolding c_def t_def by (simp add: consensus_block_def Let_def)
  moreover have "maliciousCount (consensus_block U ml bert a) = c"
    unfolding c_def by (simp add: consensus_block_def Let_def)
  moreover have "totalAnalyses (consensus_block U ml bert a) = t"
    unfolding t_def by (simp add: consensus_block_def Let_def)
  ultimately show ?thesis
    by (simp only: half_iff [OF pos])
qed

lemma consensus_block_heading:
  "heading (consensus_block U ml bert a)
     = (if maliciousCount (consensus_block U ml bert a) = totalAnalyses (consensus_block U ml bert a)
          then ''All Models Agree - MALICIOUS''
        else if maliciousCount (consensus_block U ml bert a) = 0
          then ''All Models Agree - BENIGN''
        else if totalAnalyses (consensus_block U ml bert a)
                  \<le> maliciousCount (consensus_block U ml bert a) * 2
          then ''Majority Consensus - MALICIOUS''
        else ''Majority Consensus - BENIGN'')"
proof -
  have "heading (consensus_block U ml bert a)
     = (if maliciousCount (consensus_block U ml bert a) = totalAnalyses (consensus_block U ml bert a)
          then ''All Models Agree - MALICIOUS''
        else if maliciousCount (consensus_block U ml bert a) = 0
          then ''All Models Agree - BENIGN''
        else if consensus (consensus_block U ml bert a)
          then ''Majority Consensus - MALICIOUS''
        else ''Majority Consensus - BENIGN'')"
    by (simp add: consensus_block_def Let_def)
  then show ?thesis
    by (simp only: consensus_block_consensus)
qed

lemma consensus_verdict_final:
  "map_option final_verdict (consensus_verdict v g b)
     = Some (if 3 \<le> count_true [v = ''MALICIOUS'', g, b] * 2 then ''MALICIOUS'' else ''BENIGN'')"
  by (cases "v = ''MALICIOUS''"; cases g; cases b)
     (simp_all add: consensus_verdict_def Let_def count_true_def confidence_map_def)

lemma comparison_columns_none:
  "comparison_columns None None analysis = None"
  by (cases analysis) (simp_all add: comparison_columns_def present_def)

lemma three_way_comparison_none:
  "three_way_comparison U None None analysis = None"
  by (cases analysis) (simp_all add: three_way_comparison_def comparison_columns_none)

lemma three_way_comparison_rendered:
  assumes "three_way_comparison U ml bert (Some a) = Some (Inr v)"
  shows "v = consensus_block U ml bert a \<and> (present ml \<or> present bert)"
proof -
  from assms obtain columns where c: "comparison_columns ml bert (Some a) = Some (Inr columns)"
    and v: "v = consensus_block U ml bert a"
    by (auto simp: three_way_comparison_def split: option.splits sum.splits)
  from c have "present ml \<or> present bert"
    by (auto simp: comparison_columns_def split: if_splits)
  with v show ?thesis by simp
qed

lemma consensus_verdict_confidence:
  "map_option confidence (consensus_verdict v g b)
     = Some (if count_true [v = ''MALICIOUS'', g, b] = 3 then ''High confidence (unanimous)''
             else if count_true [v = ''MALICIOUS'', g, b] = 2 then ''Medium confidence (majority)''
             else if count_true [v = ''MALICIOUS'', g, b] = 1 then ''Low confidence (minority)''
             else ''High confidence benign (unanimous)'')"
  by (cases "v = ''MALICIOUS''"; cases g; cases b)
     (simp_all add: consensus_verdict_def Let_def count_true_def confidence_map_def)

lemma count_true_three: "count_true [x, y, z] \<le> 3"
  by (simp add: count_true_def)

text \<open>
  C1 (as amended). For every comparison that is rendered (which takes at least one ML
  engine to have reported and the rule-based analysis to be present, so that two or
  three verdicts report, the rule-based one among them) the consensus is Malicious
  exactly when agreementCount * 2 >= totalReporting, where agreementCount is the number
  of reporting verdicts that say malicious and totalReporting the number of reporting
  verdicts; the README's function decides the same way on its three votes. A tie of one
  against one gives Malicious. When only the rule-based engine has reported no
  comparison is rendered and no verdict is produced.
\<close>

theorem rendered_consensus_majority_rule:
  assumes "three_way_comparison U ml bert (Some a) = Some (Inr v)"
  shows "consensus v = (totalAnalyses v \<le> maliciousCount v * 2)
         \<and> totalAnalyses v = length (reporting_votes U ml bert a)
         \<and> maliciousCount v = count_true (reporting_votes U ml bert a)
         \<and> 2 \<le> totalAnalyses v \<and> totalAnalyses v \<le> 3
         \<and> map_option final_verdict (consensus_verdict s g b)
             = Some (if 3 \<le> count_true [s = ''MALICIOUS'', g, b] * 2
                     then ''MALICIOUS'' else ''BENIGN'')
         \<and> map_option (map_sum (\<lambda>e. e) consensus)
               (three_way_comparison U (Some \<lparr>is_malicious = False, risk_score = Some x\<rparr>) None
                  (Some \<lparr>risk_assessment = Some \<lparr>verdict = Some (js_of ''Malicious''),
                                                 risk_score_percentage = p\<rparr>\<rparr>))
             = Some (Inr True)
         \<and> three_way_comparison U None None analysis = None"
proof -
  from three_way_comparison_rendered [OF assms]
  have v: "v = consensus_block U ml bert a" and r: "present ml \<or> present bert"
    by simp_all
  have tie: "map_option (map_sum (\<lambda>e. e) consensus)
               (three_way_comparison U (Some \<lparr>is_malicious = False, risk_score = Some x\<rparr>) None
                  (Some \<lparr>risk_assessment = Some \<lparr>verdict = Some (js_of ''Malicious''),
                                                 risk_score_percentage = p\<rparr>\<rparr>))
             = Some (Inr True)"
    by (simp add: three_way_comparison_def comparison_columns_def present_def
          consensus_block_def Let_def count_true_def gnn_vote_def stataMalicious_example)
  show ?thesis
    unfolding v
    using consensus_block_consensus [of U ml bert a] consensus_block_counts [of U ml bert a]
      consensus_block_total [of U ml bert a] consensus_block_total_rendered [OF r, of U a]
      consensus_verdict_final [of s g b] tie three_way_comparison_none [of U analysis]
    by blast
qed

theorem rendered_consensus_majority_rule_witness:
  "three_way_comparison (\<lambda>s. s)
     (Some \<lparr>is_malicious = True, risk_score = Some 80\<rparr>)
     (Some \<lparr>is_malicious = True, risk_score = Some 70\<rparr>)
     (Some \<lparr>risk_assessment = Some \<lparr>verdict = Some (js_of ''Safe''),
                                    risk_score_percentage = Some 10\<rparr>\<rparr>)
   = Some (Inr \<lparr>maliciousCount = 2, totalAnalyses = 3, consensus = True,
                heading = ''Majority Consensus - MALICIOUS'',
                remark = '' Review individual analysis details for comprehensive assessment.''\<rparr>)
   \<and> reporting_votes (\<lambda>s. s)
     (Some \<lparr>is_malicious = True, risk_score = Some 80\<rparr>)
     (Some \<lparr>is_malicious = True, risk_score = Some 70\<rparr>)
     \<lparr>risk_assessment = Some \<lparr>verdict = Some (js_of ''Safe''),
                              risk_score_percentage = Some 10\<rparr>\<rparr>
   = [True, True, False]"
  (is "three_way_comparison ?U ?ml ?bert (Some ?a) = Some (Inr ?v) \<and> _")
proof -
  have h: "three_way_comparison ?U ?ml ?bert (Some ?a) = Some (Inr ?v)"
    by (simp add: three_way_comparison_def comparison_columns_def present_def
          consensus_block_def Let_def count_true_def gnn_vote_def stataMalicious_safe)
  have "length (reporting_votes ?U ?ml ?bert ?a) = 3
        \<and> count_true (reporting_votes ?U ?ml ?bert ?a) = 2"
    using rendered_consensus_majority_rule [OF h] by simp
  moreover have "reporting_votes ?U ?ml ?bert ?a = [True, True, False]"
    by (simp add: reporting_votes_def stataMalicious_safe)
  ultimately show ?thesis using h by blast
qed

text \<open>
  A single malicious reporter: the rule-based engine says malicious, no ML engine has
  reported, and the page shows no comparison and no verdict.
\<close>

theorem single_reporter_counterexample:
  "reporting_votes (\<lambda>s. s) None None
     \<lparr>risk_assessment = Some \<lparr>verdict = Some (js_of ''Malicious''),
                              risk_score_percentage = Some 90\<rparr>\<rparr> = [True]
   \<and> three_way_comparison (\<lambda>s. s) None None
       (Some \<lparr>risk_assessment = Some \<lparr>verdict = Some (js_of ''Malicious''),
                                      risk_score_percentage = Some 90\<rparr>\<rparr>) = None"
  by (simp add: reporting_votes_def stataMalicious_example three_way_comparison_none)

text \<open>
  C3 (as amended). For every comparison that is rendered (two or three reporting
  verdicts, the rule-based one among them) the heading is one of the two 'All Models
  Agree' texts exactly when agreementCount is 0 or equals totalReporting (Unanimous),
  'Majority Consensus - MALICIOUS' exactly when at least half but not all voted
  malicious, an exact tie included (Majority), and 'Majority Consensus - BENIGN'
  exactly when some but fewer than half voted malicious (Minority: the malicious votes
  are the minority). The README's function, on its three votes, says unanimous for 0
  and 3, majority for 2 and minority for 1. When only the rule-based engine has
  reported no comparison is rendered and no label is produced.
\<close>

theorem rendered_consensus_label:
  assumes "three_way_comparison U ml bert (Some a) = Some (Inr v)"
  shows "(spec_confidenceLabel (maliciousCount v) (totalAnalyses v) = Unanimous)
           = (heading v = ''All Models Agree - MALICIOUS''
              \<or> heading v = ''All Models Agree - BENIGN'')
         \<and> (spec_confidenceLabel (maliciousCount v) (totalAnalyses v) = Majority)
           = (heading v = ''Majority Consensus - MALICIOUS'')
         \<and> (spec_confidenceLabel (maliciousCount v) (totalAnalyses v) = Minority)
           = (heading v = ''Majority Consensus - BENIGN'')
         \<and> 2 \<le> totalAnalyses v \<and> totalAnalyses v \<le> 3
         \<and> (spec_confidenceLabel (count_true [s = ''MALICIOUS'', g, b]) 3 = Unanimous)
           = (map_option confidence (consensus_verdict s g b)
                = Some ''High confidence (unanimous)''
              \<or> map_option confidence (consensus_verdict s g b)
                = Some ''High confidence benign (unanimous)'')
         \<and> (spec_confidenceLabel (count_true [s = ''MALICIOUS'', g, b]) 3 = Majority)
           = (map_option confidence (consensus_verdict s g b)
                = Some ''Medium confidence (majority)'')
         \<and> (spec_confidenceLabel (count_true [s = ''MALICIOUS'', g, b]) 3 = Minority)
           = (map_option confidence (consensus_verdict s g b)
                = Some ''Low confidence (minority)'')
         \<and> three_way_comparison U None None analysis = None"
proof -
  from three_way_comparison_rendered [OF assms]
  have v: "v = consensus_block U ml bert a" and r: "present ml \<or> present bert"
    by simp_all
  have t: "2 \<le> totalAnalyses v" "totalAnalyses v \<le> 3"
    unfolding v
    using consensus_block_total [of U ml bert a] consensus_block_total_rendered [OF r, of U a]
    by simp_all
  have h: "heading v
     = (if maliciousCount v = totalAnalyses v then ''All Models Agree - MALICIOUS''
        else if maliciousCount v = 0 then ''All Models Agree - BENIGN''
        else if totalAnalyses v \<le> maliciousCount v * 2 then ''Majority Consensus - MALICIOUS''
        else ''Majority Consensus - BENIGN'')"
    unfolding v by (rule consensus_block_heading)
  have page: "(spec_confidenceLabel (maliciousCount v) (totalAnalyses v) = Unanimous)
           = (heading v = ''All Models Agree - MALICIOUS''
              \<or> heading v = ''All Models Agree - BENIGN'')
         \<and> (spec_confidenceLabel (maliciousCount v) (totalAnalyses v) = Majority)
           = (heading v = ''Majority Consensus - MALICIOUS'')
         \<and> (spec_confidenceLabel (maliciousCount v) (totalAnalyses v) = Minority)
           = (heading v = ''Majority Consensus - BENIGN'')"
    unfolding h using t(1) by (simp add: spec_confidenceLabel_def)
  define c where "c = count_true [s = ''MALICIOUS'', g, b]"
  have c3: "c \<le> 3" unfolding c_def by (rule count_true_three)
  have conf: "map_option confidence (consensus_verdict s g b)
     = Some (if c = 3 then ''High confidence (unanimous)''
             else if c = 2 then ''Medium confidence (majority)''
             else if c = 1 then ''Low confidence (minority)''
             else ''High confidence benign (unanimous)'')"
    unfolding c_def by (rule consensus_verdict_confidence)
  from c3 consider "c = 0" | "c = 1" | "c = 2" | "c = 3" by linarith
  then have readme: "(spec_confidenceLabel c 3 = Unanimous)
           = (map_option confidence (consensus_verdict s g b)
                = Some ''High confidence (unanimous)''
              \<or> map_option confidence (consensus_verdict s g b)
                = Some ''High confidence benign (unanimous)'')
         \<and> (spec_confidenceLabel c 3 = Majority)
           = (map_option confidence (consensus_verdict s g b)
                = Some ''Medium confidence (majority)'')
         \<and> (spec_confidenceLabel c 3 = Minority)
           = (map_option confidence (consensus_verdict s g b)
                = Some ''Low confidence (minority)'')"
    unfolding conf by cases (simp_all add: spec_confidenceLabel_def)
  from page t readme three_way_comparison_none [of U analysis] show ?thesis
    unfolding c_def by blast
qed

theorem rendered_consensus_label_witness:
  "three_way_comparison (\<lambda>s. s)
     (Some \<lparr>is_malicious = False, risk_score = Some 10\<rparr>)
     (Some \<lparr>is_malicious = False, risk_score = Some 20\<rparr>)
     (Some \<lparr>risk_assessment = Some \<lparr>verdict = Some (js_of ''Malicious''),
                                    risk_score_percentage = Some 70\<rparr>\<rparr>)
   = Some (Inr \<lparr>maliciousCount = 1, totalAnalyses = 3, consensus = False,
                heading = ''Majority Consensus - BENIGN'',
                remark = '' Review individual analysis details for comprehensive assessment.''\<rparr>)
   \<and> spec_confidenceLabel 1 3 = Minority"
  (is "three_way_comparison ?U ?ml ?bert (Some ?a) = Some (Inr ?v) \<and> _")
proof -
  have h: "three_way_comparison ?U ?ml ?bert (Some ?a) = Some (Inr ?v)"
    by (simp add: three_way_comparison_def comparison_columns_def present_def
          consensus_block_def Let_def count_true_def gnn_vote_def stataMalicious_example)
  have "(spec_confidenceLabel (maliciousCount ?v) (totalAnalyses ?v) = Minority)
          = (heading ?v = ''Majority Consensus - BENIGN'')"
    using rendered_consensus_label [OF h] by blast
  then have "spec_confidenceLabel 1 3 = Minority" by simp
  with h show ?thesis by blast
qed

text \<open>
  A single benign reporter: none of one says malicious, which the specification labels
  Unanimous; the page shows no comparison and no label.
\<close>

theorem single_reporter_label_counterexample:
  "reporting_votes (\<lambda>s. s) None None
     \<lparr>risk_assessment = Some \<lparr>verdict = Some (js_of ''Safe''),
                              risk_score_percentage = Some 10\<rparr>\<rparr> = [False]
   \<and> spec_confidenceLabel 0 1 = Unanimous
   \<and> three_way_comparison (\<lambda>s. s) None None
       (Some \<lparr>risk_assessment = Some \<lparr>verdict = Some (js_of ''Safe''),
                                      risk_score_percentage = Some 10\<rparr>\<rparr>) = None"
  by (simp add: reporting_votes_def stataMalicious_safe three_way_comparison_none
        spec_confidenceLabel_def)

text \<open>
  C2 (as amended). When neither ML engine has reported the comparison is not rendered:
  no verdict, label or score is produced. The consensus computation counts the
  rule-based engine as reporting in every case, so totalAnalyses is at least 1, and its
  heading is always one of the four texts of the source, none of them a label for
  missing data; when no reporting engine votes malicious the verdict is Benign under
  the heading 'All Models Agree - BENIGN'.
\<close>

theorem no_ml_engine_no_panel:
  "three_way_comparison U None None analysis = None
   \<and> 1 \<le> totalAnalyses (consensus_block U ml bert a)
   \<and> (heading (consensus_block U ml bert a) = ''All Models Agree - MALICIOUS''
       \<or> heading (consensus_block U ml bert a) = ''All Models Agree - BENIGN''
       \<or> heading (consensus_block U ml bert a) = ''Majority Consensus - MALICIOUS''
       \<or> heading (consensus_block U ml bert a) = ''Majority Consensus - BENIGN'')
   \<and> (maliciousCount (consensus_block U ml bert a) = 0 \<longrightarrow>
        \<not> consensus (consensus_block U ml bert a)
        \<and> heading (consensus_block U ml bert a) = ''All Models Agree - BENIGN'')"
proof -
  have b: "heading (consensus_block U ml bert a) = ''All Models Agree - MALICIOUS''
       \<or> heading (consensus_block U ml bert a) = ''All Models Agree - BENIGN''
       \<or> heading (consensus_block U ml bert a) = ''Majority Consensus - MALICIOUS''
       \<or> heading (consensus_block U ml bert a) = ''Majority Consensus - BENIGN''"
    unfolding consensus_block_heading by simp
  have c: "maliciousCount (consensus_block U ml bert a) = 0 \<Longrightarrow>
        \<not> consensus (consensus_block U ml bert a)
        \<and> heading (consensus_block U ml bert a) = ''All Models Agree - BENIGN''"
    using consensus_block_total [of U ml bert a]
    unfolding consensus_block_heading consensus_block_consensus by auto
  from three_way_comparison_none [of U analysis] b c consensus_block_total [of U ml bert a]
  show ?thesis by blast
qed

theorem no_ml_engine_no_panel_witness:
  "maliciousCount (consensus_block (\<lambda>s. s) None None \<lparr>risk_assessment = None\<rparr>) = 0
   \<and> \<not> consensus (consensus_block (\<lambda>s. s) None None \<lparr>risk_assessment = None\<rparr>)
   \<and> heading (consensus_block (\<lambda>s. s) None None \<lparr>risk_assessment = None\<rparr>)
       = ''All Models Agree - BENIGN''"
proof -
  have z: "maliciousCount (consensus_block (\<lambda>s. s) None None \<lparr>risk_assessment = None\<rparr>) = 0"
    by (simp add: consensus_block_def Let_def count_true_def gnn_vote_def stataMalicious_def)
  from no_ml_engine_no_panel [of "\<lambda>s. s" None None None "\<lparr>risk_assessment = None\<rparr>"] z
  show ?thesis by blast
qed

text \<open>
  With no engine result at all nothing is returned; the computation itself, run on no ML
  result and no rule-based verdict, counts one analysis and reports agreement.
\<close>

theorem no_engine_counterexample:
  "three_way_comparison (\<lambda>s. s) None None None = None
   \<and> three_way_comparison (\<lambda>s. s) None None (Some \<lparr>risk_assessment = None\<rparr>) = None
   \<and> totalAnalyses (consensus_block (\<lambda>s. s) None None \<lparr>risk_assessment = None\<rparr>) = 1
   \<and> heading (consensus_block (\<lambda>s. s) None None \<lparr>risk_assessment = None\<rparr>)
       = ''All Models Agree - BENIGN''"
  by (simp add: three_way_comparison_none consensus_block_def Let_def count_true_def present_def
        gnn_vote_def stataMalicious_def)

text \<open>
  C4 (as amended). The comparison computes no combined risk score. It is rendered only
  when at least one ML engine has reported and the rule-based analysis is present. It
  then shows each reporting engine's own risk score in a column of its own: the GNN
  column when the GNN has reported, the BERT column when BERT has reported (0 for a
  missing score) and the rule-based column (0 for a missing score); when the GNN
  result carries no risk score the rendering fails with a TypeError. An ML engine
  that has not reported adds no column and leaves the scores of the other columns as
  they are.
\<close>

theorem comparison_columns_per_engine:
  "comparison_columns None None analysis = None
   \<and> comparison_columns mlAnalysis bertAnalysis None = None
   \<and> comparison_columns None (Some b) (Some a)
       = Some (Inr [(''BERT Model'', number_or_zero (risk_score b)),
                    (''STATA (Rules)'', stata_score a)])
   \<and> comparison_columns (Some \<lparr>is_malicious = m, risk_score = None\<rparr>) bertAnalysis (Some a)
       = Some (Inl TypeError)
   \<and> comparison_columns (Some \<lparr>is_malicious = m, risk_score = Some x\<rparr>) None (Some a)
       = Some (Inr [(''GNN Model'', x), (''STATA (Rules)'', stata_score a)])
   \<and> comparison_columns (Some \<lparr>is_malicious = m, risk_score = Some x\<rparr>) (Some b) (Some a)
       = Some (Inr [(''GNN Model'', x), (''BERT Model'', number_or_zero (risk_score b)),
                    (''STATA (Rules)'', stata_score a)])
   \<and> number_or_zero None = 0 \<and> number_or_zero (Some x) = x
   \<and> stata_score \<lparr>risk_assessment = None\<rparr> = 0
   \<and> stata_score \<lparr>risk_assessment = Some \<lparr>verdict = w, risk_score_percentage = p\<rparr>\<rparr>
       = number_or_zero p"
  by (simp add: comparison_columns_none)
     (simp add: comparison_columns_def Let_def present_def number_or_zero_def stata_score_def)

text \<open>
  For the reporting scores 80, 70 and 10 the scores shown are 80, 70 and 10; their mean
  appears nowhere.
\<close>

theorem combined_score_counterexample:
  "comparison_columns (Some \<lparr>is_malicious = True, risk_score = Some 80\<rparr>)
     (Some \<lparr>is_malicious = True, risk_score = Some 70\<rparr>)
     (Some \<lparr>risk_assessment = Some \<lparr>verdict = Some (js_of ''Safe''),
                                    risk_score_percentage = Some 10\<rparr>\<rparr>)
   = Some (Inr [(''GNN Model'', 80), (''BERT Model'', 70), (''STATA (Rules)'', 10)])"
  by (simp add: comparison_columns_def Let_def present_def number_or_zero_def stata_score_def)

text \<open>
  C5. The combined score of the rule-based engine is 0.6 times the threat-pattern
  sub-score plus 0.4 times the behavioral sub-score; the category is Malicious from 60,
  Suspicious from 35 to below 60 and Safe below 35, the same bands as the risk gauge of
  the page; sub-scores 90 and 20 give 62 and Malicious.
\<close>

theorem risk_category_thresholds:
  "combined_score t b = 0.6 * t + 0.4 * b
   \<and> (category_of s = Malicious) = (60 \<le> s)
   \<and> (category_of s = Suspicious) = (35 \<le> s \<and> s < 60)
   \<and> (category_of s = Safe) = (s < 35)
   \<and> combined_score 90 20 = 62
   \<and> category_of (combined_score 90 20) = Malicious
   \<and> (gauge_class s = ''bg-gradient-to-r from-red-500 to-red-600'') = (category_of s = Malicious)
   \<and> (gauge_class s = ''bg-gradient-to-r from-yellow-500 to-yellow-600'') = (category_of s = Suspicious)
   \<and> (gauge_class s = ''bg-gradient-to-r from-green-500 to-green-600'') = (category_of s = Safe)"
  by (simp add: combined_score_def category_of_def gauge_class_def)

end
